theory Spec2Isabelle
  imports Complex_Main "HOL-Library.Option_ord"
begin

section \<open>Numbers\<close>

text \<open>
  JavaScript numbers are modelled as exact reals: every arithmetic operation of the
  source is the corresponding operation on \<^typ>\<open>real\<close>, without the rounding error of
  IEEE doubles. \<open>Math.round\<close> rounds half up (towards plus infinity).
\<close>

definition Math_round :: "real \<Rightarrow> int" where
  "Math_round x = \<lfloor>x + 1 / 2\<rfloor>"

section \<open>Trending service (\<open>trendingService\<close>, in services/auth.ts)\<close>

definition WEIGHTS_views :: real where "WEIGHTS_views = 1"
definition WEIGHTS_saves :: real where "WEIGHTS_saves = 3"
definition WEIGHTS_shares :: real where "WEIGHTS_shares = 5"

definition GRAVITY :: real where "GRAVITY = 18 / 10"


section \<open>Strings\<close>

text \<open>
  Strings are byte strings; \<open>toLowerCase\<close> maps the ASCII capitals to small letters and
  leaves every other byte alone. \<open>includes_str s t\<close> is \<open>s.includes(t)\<close>: \<open>t\<close> occurs in \<open>s\<close>
  as a contiguous substring.
\<close>

definition toLowerCase_char :: "char \<Rightarrow> char" where
  "toLowerCase_char c =
     (case map_of (zip ''ABCDEFGHIJKLMNOPQRSTUVWXYZ'' ''abcdefghijklmnopqrstuvwxyz'') c of
        None \<Rightarrow> c
      | Some l \<Rightarrow> l)"

definition toLowerCase :: "string \<Rightarrow> string" where
  "toLowerCase s = map toLowerCase_char s"

definition startsWith :: "string \<Rightarrow> string \<Rightarrow> bool" where
  "startsWith s t = (take (length t) s = t)"

fun includes_str :: "string \<Rightarrow> string \<Rightarrow> bool" where
  "includes_str [] t = (t = [])"
| "includes_str (c # s) t = (startsWith (c # s) t \<or> includes_str s t)"

section \<open>Data model (models/Article.ts, the user model in unnamed/part_011)\<close>

text \<open>
  \<open>DynamicRole\<close> and \<open>TargetRole\<close> are two interfaces with the same two fields; TypeScript
  types are structural, so one record stands for both.
\<close>

record DynamicRole =
  role :: string
  weight :: real

type_synonym TargetRole = DynamicRole

text \<open>
  A field that may be missing at run time (\<open>user.dynamicRoles || []\<close>,
  \<open>user.preferences?.topics || []\<close>, \<open>article.views || 0\<close>, \<open>!publishedAt\<close>) is an option.
  Dates are milliseconds since the epoch.
\<close>

record UserPreferences =
  topics :: "string list option"
  pref_skillLevel :: "string option"

record LeanUser =
  u_id :: string
  dynamicRoles :: "DynamicRole list option"
  preferences :: "UserPreferences option"

record Article =
  a_id :: string
  publishedAt :: "real option"
  qualityScore :: real
  targetRoles :: "TargetRole list option"
  skillLevel :: string
  tags :: "string list option"
  views :: "real option"
  saves :: "real option"
  shares :: "real option"
  isActive :: bool
  isClickbait :: bool

text \<open>\<open>x || []\<close> and \<open>x || 0\<close>.\<close>

definition or_empty :: "'a list option \<Rightarrow> 'a list" where
  "or_empty x = (case x of None \<Rightarrow> [] | Some xs \<Rightarrow> xs)"

definition or_zero :: "real option \<Rightarrow> real" where
  "or_zero x = (case x of None \<Rightarrow> 0 | Some v \<Rightarrow> v)"

section \<open>Relevance scorer (\<open>feedService\<close>, in services/feed.ts)\<close>

definition calculateRoleAlignment :: "DynamicRole list \<Rightarrow> TargetRole list \<Rightarrow> real" where
  "calculateRoleAlignment userRoles articleRoles =
     (let score = foldl (\<lambda>score userRole.
                    case find (\<lambda>r. role r = role userRole) articleRoles of
                      None \<Rightarrow> score
                    | Some articleRole \<Rightarrow> score + weight userRole * weight articleRole)
                  0 userRoles
      in min score 1)"

definition calculateTagMatch :: "string list \<Rightarrow> string list \<Rightarrow> real" where
  "calculateTagMatch userTopics articleTags =
     (if length userTopics = 0 \<or> length articleTags = 0 then 0
      else let matches = filter (\<lambda>topic.
                    list_ex (\<lambda>tag.
                      includes_str (toLowerCase tag) (toLowerCase topic) \<or>
                      includes_str (toLowerCase topic) (toLowerCase tag)) articleTags) userTopics
           in real (length matches) / real (max (length userTopics) (length articleTags)))"

text \<open>
  \<open>calculateFreshness\<close> reads the clock (\<open>Date.now()\<close>); the reading is the explicit
  argument \<open>now\<close>.
\<close>

definition calculateFreshness :: "real \<Rightarrow> real option \<Rightarrow> real" where
  "calculateFreshness now publishedAt' =
     (case publishedAt' of
        None \<Rightarrow> 5 / 10
      | Some published \<Rightarrow>
          let daysOld = (now - published) / (1000 * 60 * 60 * 24)
          in if daysOld \<le> 7 then 1
             else if daysOld \<le> 14 then 8 / 10
             else if daysOld \<le> 30 then 5 / 10
             else 2 / 10)"

definition calculateEngagement :: "Article \<Rightarrow> real" where
  "calculateEngagement article =
     (let views' = or_zero (views article);
          saves' = or_zero (saves article);
          viewScore = min (views' / 1000) 1;
          saveScore = min (saves' / 100) 1
      in viewScore * (4 / 10) + saveScore * (6 / 10))"

definition relevanceTotal :: "real \<Rightarrow> LeanUser \<Rightarrow> Article \<Rightarrow> real" where
  "relevanceTotal now user article =
     (let roleScore = calculateRoleAlignment (or_empty (dynamicRoles user))
                        (or_empty (targetRoles article));
          tagScore = calculateTagMatch
                        (case preferences user of None \<Rightarrow> [] | Some p \<Rightarrow> or_empty (topics p))
                        (or_empty (tags article));
          freshnessScore = calculateFreshness now (publishedAt article);
          engagementScore = calculateEngagement article
      in roleScore * (4 / 10) + tagScore * (3 / 10) + freshnessScore * (2 / 10)
         + engagementScore * (1 / 10))"

definition calculateRelevanceScore :: "real \<Rightarrow> LeanUser \<Rightarrow> Article \<Rightarrow> int" where
  "calculateRelevanceScore now user article = Math_round (relevanceTotal now user article * 100)"

section \<open>Stores (the engagement model in unnamed/part_015, the collections)\<close>

datatype EngagementType = VIEW | SAVE | SHARE | RATE | UNSAVE

text \<open>
  The fields of the engagement schema that the services below read or write. The field
  \<open>type\<close> is \<open>etype\<close>. The schema declares \<open>userId\<close> and \<open>articleId\<close> as strings, and
  its timestamps are \<open>createdAt\<close> only: it has no path \<open>updatedAt\<close>.
\<close>

record Engagement =
  userId :: string
  articleId :: string
  etype :: EngagementType
  createdAt :: real

text \<open>
  A stored identifier is a string or an ObjectId. Queries of a model (\<open>find\<close>,
  \<open>findById\<close>, \<open>findOneAndUpdate\<close>) cast their filter to the schema, so there an
  identifier given as a string finds the document with that identifier; the stages of an
  aggregation pipeline are sent as they are, and there a string and an ObjectId are two
  different values, whatever their text. Identifiers are taken to be well-formed.
\<close>

datatype bson = BString string | BObjectId string

text \<open>
  The collections, each in its natural order. Reads and writes of the collections are
  taken to succeed; only Redis commands and the gamification hooks can fail.
\<close>

record Db =
  users :: "LeanUser list"
  articles :: "Article list"
  engagements :: "Engagement list"

section \<open>Role computation (\<open>roleService\<close>, in middleware/context.ts)\<close>

definition SMOOTHING_FACTOR :: real where "SMOOTHING_FACTOR = 7 / 10"

definition VALID_ROLES :: "string list" where
  "VALID_ROLES = [''FRONTEND'', ''BACKEND'', ''DEVOPS'', ''ML'', ''MOBILE'', ''DATA'', ''SECURITY'']"

text \<open>
  The aggregation pipeline of \<open>computeUserRoles\<close>. \<open>roleRows\<close> is the stream after
  \<open>$match\<close>, \<open>$lookup\<close>, \<open>$unwind article\<close>, \<open>$addFields engagementWeight\<close> and
  \<open>$unwind article.targetRoles\<close>: one row per matching engagement, joined article and
  target role, carrying the role and \<open>engagementWeight * weight\<close>. \<open>$match\<close> compares the
  stored \<open>userId\<close>, a string, with \<open>new Types.ObjectId(userId)\<close>, and \<open>$lookup\<close> joins the
  stored \<open>articleId\<close>, a string, to the \<open>_id\<close> of the articles, an ObjectId. \<open>$group\<close> then
  sums the rows of each role; the groups are listed in the order in which their roles
  first occur.
\<close>

definition engagementWeight :: "EngagementType \<Rightarrow> real" where
  "engagementWeight t = (case t of SAVE \<Rightarrow> 3 | SHARE \<Rightarrow> 5 | _ \<Rightarrow> 1)"

definition roleRows :: "Db \<Rightarrow> real \<Rightarrow> string \<Rightarrow> (string \<times> real) list" where
  "roleRows db since uid =
     concat (map (\<lambda>e.
        concat (map (\<lambda>a.
            map (\<lambda>tr. (role tr, engagementWeight (etype e) * weight tr))
                (or_empty (targetRoles a)))
          (filter (\<lambda>a. BObjectId (a_id a) = BString (articleId e)) (articles db))))
       (filter (\<lambda>e. BString (userId e) = BObjectId uid \<and> since \<le> createdAt e
                    \<and> etype e \<in> {VIEW, SAVE, SHARE})
          (engagements db)))"

record RoleGroup =
  g_id :: string
  totalWeight :: real
  count :: nat

fun addToGroup :: "string \<times> real \<Rightarrow> RoleGroup list \<Rightarrow> RoleGroup list" where
  "addToGroup (k, w) [] = [\<lparr>g_id = k, totalWeight = w, count = 1\<rparr>]"
| "addToGroup (k, w) (g # gs) =
     (if g_id g = k then g\<lparr>totalWeight := totalWeight g + w, count := count g + 1\<rparr> # gs
      else g # addToGroup (k, w) gs)"

definition aggregateRoles :: "Db \<Rightarrow> real \<Rightarrow> string \<Rightarrow> RoleGroup list" where
  "aggregateRoles db since uid = foldl (\<lambda>gs r. addToGroup r gs) [] (roleRows db since uid)"

text \<open>
  \<open>round2 x\<close> is \<open>Math.round(x * 100) / 100\<close>, rounding to hundredths. \<open>sort((a, b) => b.weight - a.weight)\<close> is a stable sort
  by descending weight.
\<close>

definition round2 :: "real \<Rightarrow> real" where
  "round2 x = real_of_int (Math_round (x * 100)) / 100"

definition sortByWeightDesc :: "DynamicRole list \<Rightarrow> DynamicRole list" where
  "sortByWeightDesc rs = sort_key (\<lambda>r. - weight r) rs"

definition rolesOfGroups :: "RoleGroup list \<Rightarrow> DynamicRole list" where
  "rolesOfGroups engagements' =
     (if length engagements' = 0 then []
      else let totalWeight' = foldl (\<lambda>sum e. sum + totalWeight e) 0 engagements'
           in if totalWeight' = 0 then []
              else sortByWeightDesc
                     (filter (\<lambda>r. weight r \<ge> 5 / 100)
                        (map (\<lambda>e. \<lparr>role = g_id e, weight = round2 (totalWeight e / totalWeight')\<rparr>)
                           (filter (\<lambda>e. g_id e \<in> set VALID_ROLES) engagements'))))"

text \<open>\<open>computeUserRoles\<close> at clock reading \<open>now\<close>.\<close>

definition computeUserRoles :: "Db \<Rightarrow> real \<Rightarrow> string \<Rightarrow> real \<Rightarrow> DynamicRole list" where
  "computeUserRoles db now userId' days =
     (let since = now - days * 24 * 60 * 60 * 1000
      in rolesOfGroups (aggregateRoles db since userId'))"

text \<open>
  \<open>smoothRoles\<close>. \<open>new Map(previous.map(...))\<close> keeps the last weight of a role that
  occurs twice; \<open>prevMap.get(r.role) || 0\<close> is 0 for a role that is not there. The loop
  over \<open>previous\<close> pushes onto \<open>smoothed\<close> and looks the role up in the list as it grows.
  Where the weights of \<open>smoothed\<close> sum to 0 the source divides by zero; the model's
  division then yields 0.
\<close>

definition prevWeightOf :: "DynamicRole list \<Rightarrow> string \<Rightarrow> real" where
  "prevWeightOf previous k =
     (case map_of (rev (map (\<lambda>r. (role r, weight r)) previous)) k of
        None \<Rightarrow> 0
      | Some w \<Rightarrow> w)"

definition keepDecayed :: "DynamicRole list \<Rightarrow> DynamicRole \<Rightarrow> DynamicRole list" where
  "keepDecayed smoothed prev =
     (if find (\<lambda>s. role s = role prev) smoothed = None
      then (let decayedWeight = weight prev * (1 - SMOOTHING_FACTOR)
            in if decayedWeight \<ge> 5 / 100
               then smoothed @ [\<lparr>role = role prev, weight = round2 decayedWeight\<rparr>]
               else smoothed)
      else smoothed)"

definition smoothOne :: "DynamicRole list \<Rightarrow> DynamicRole \<Rightarrow> DynamicRole" where
  "smoothOne previous r =
     (let prevWeight = prevWeightOf previous (role r);
          smoothedWeight = SMOOTHING_FACTOR * weight r + (1 - SMOOTHING_FACTOR) * prevWeight
      in \<lparr>role = role r, weight = round2 smoothedWeight\<rparr>)"

definition normalizeBy :: "real \<Rightarrow> DynamicRole \<Rightarrow> DynamicRole" where
  "normalizeBy total' r = \<lparr>role = role r, weight = round2 (weight r / total')\<rparr>"

definition smoothRoles :: "DynamicRole list \<Rightarrow> DynamicRole list \<Rightarrow> DynamicRole list" where
  "smoothRoles previous computed =
     (if length previous = 0 then computed
      else let smoothed = map (smoothOne previous) computed;
               smoothed' = foldl keepDecayed smoothed previous;
               total' = foldl (\<lambda>sum r. sum + weight r) 0 smoothed'
           in sortByWeightDesc (map (normalizeBy total') smoothed'))"

section \<open>Redis cache (\<open>cache\<close>, \<open>cacheKeys\<close>, \<open>cacheTTL\<close>, in jobs/index.ts)\<close>

text \<open>
  A rejected promise is an error value. The only Redis failure modelled is a command that
  does not reach the server; the other errors are a gamification hook that throws and
  \<open>slice\<close> called on a cached value that is not an array.
\<close>

datatype error = RedisError | GamificationError | TypeError

text \<open>
  A cached value is the JSON the services store: a scored feed page, a list of articles
  or one article.
\<close>

datatype Cached = Scored "(Article \<times> int) list" | Plain "Article list" | One Article

text \<open>
  The Redis server: the keys with their value and time to live in seconds (expiry itself
  is not modelled), the number of commands issued so far, and for each command number
  whether that command reaches the server.
\<close>

record Redis =
  store :: "(string \<times> Cached \<times> nat) list"
  ops :: nat
  up :: "nat \<Rightarrow> bool"

definition issued :: "Redis \<Rightarrow> Redis" where
  "issued r = r\<lparr>ops := Suc (ops r)\<rparr>"

definition cache_get :: "Redis \<Rightarrow> string \<Rightarrow> (error + Cached option) \<times> Redis" where
  "cache_get r key =
     (if up r (ops r) then (Inr (map_option fst (map_of (store r) key)), issued r)
      else (Inl RedisError, issued r))"

definition cache_set :: "Redis \<Rightarrow> string \<Rightarrow> Cached \<Rightarrow> nat \<Rightarrow> (error + unit) \<times> Redis" where
  "cache_set r key value ttlSeconds =
     (if up r (ops r)
      then (Inr (), issued (r\<lparr>store := (key, value, ttlSeconds)
                                  # filter (\<lambda>(k, _). k \<noteq> key) (store r)\<rparr>))
      else (Inl RedisError, issued r))"

definition cache_del :: "Redis \<Rightarrow> string \<Rightarrow> (error + unit) \<times> Redis" where
  "cache_del r key =
     (if up r (ops r)
      then (Inr (), issued (r\<lparr>store := filter (\<lambda>(k, _). k \<noteq> key) (store r)\<rparr>))
      else (Inl RedisError, issued r))"

text \<open>
  Glob patterns: \<open>*\<close> matches any sequence of characters, every other character itself
  (the patterns of the services contain no other metacharacter).
\<close>

fun globMatch :: "string \<Rightarrow> string \<Rightarrow> bool" where
  "globMatch [] [] = True"
| "globMatch [] (c # s) = False"
| "globMatch (p # ps) [] = (p = CHR ''*'' \<and> globMatch ps [])"
| "globMatch (p # ps) (c # s) =
     (if p = CHR ''*'' then globMatch ps (c # s) \<or> globMatch (p # ps) s
      else p = c \<and> globMatch ps s)"

text \<open>\<open>delPattern\<close> issues \<open>KEYS\<close> and, when there is a key, \<open>DEL\<close>.\<close>

definition cache_delPattern :: "Redis \<Rightarrow> string \<Rightarrow> (error + nat) \<times> Redis" where
  "cache_delPattern r pattern =
     (if up r (ops r)
      then let keys = filter (globMatch pattern) (map fst (store r)); r1 = issued r
           in if length keys = 0 then (Inr 0, r1)
              else if up r1 (ops r1)
                   then (Inr (length keys),
                         issued (r1\<lparr>store := filter (\<lambda>(k, _). k \<notin> set keys) (store r1)\<rparr>))
                   else (Inl RedisError, issued r1)
      else (Inl RedisError, issued r))"

text \<open>Key builders; a number in a template string is written in decimal.\<close>

fun showNat :: "nat \<Rightarrow> string" where
  "showNat n = (if n < 10 then [''0123456789'' ! n]
                else showNat (n div 10) @ [''0123456789'' ! (n mod 10)])"

declare showNat.simps [simp del]

definition cacheKeys_userFeed :: "string \<Rightarrow> nat \<Rightarrow> string" where
  "cacheKeys_userFeed userId' page = ''feed:user:'' @ userId' @ '':page:'' @ showNat page"

definition cacheKeys_article :: "string \<Rightarrow> string" where
  "cacheKeys_article articleId' = ''article:'' @ articleId' @ '':data''"

definition cacheKeys_trending :: "nat \<Rightarrow> string" where
  "cacheKeys_trending days = ''trending:articles:'' @ showNat days @ ''days''"

definition cacheTTL_feed :: nat where "cacheTTL_feed = 5 * 60"
definition cacheTTL_article :: nat where "cacheTTL_article = 60 * 60"
definition cacheTTL_trending :: nat where "cacheTTL_trending = 10 * 60"

section \<open>The state of the services\<close>

record World =
  db :: Db
  cache :: Redis

text \<open>
  \<open>updateFirst P f\<close> is the update of \<open>findOneAndUpdate\<close> and \<open>findByIdAndUpdate\<close>: the
  first document that satisfies the filter is changed, no other.
\<close>

fun updateFirst :: "('a \<Rightarrow> bool) \<Rightarrow> ('a \<Rightarrow> 'a) \<Rightarrow> 'a list \<Rightarrow> 'a list" where
  "updateFirst P f [] = []"
| "updateFirst P f (x # xs) = (if P x then f x # xs else x # updateFirst P f xs)"

section \<open>Gamification service (services/gamification.ts)\<close>

text \<open>
  The service forwards to the enterprise implementation when that module is installed
  and falls back to constants otherwise. The enterprise module is not part of the
  sources; it is a parameter whose calls return or throw, and it is taken not to write
  the engagement and article collections or the cache.
\<close>

record EEService =
  ee_checkStreak :: "string \<Rightarrow> error + nat \<times> bool"
  ee_checkReadingMilestones :: "string \<Rightarrow> error + unit"
  ee_checkEngagementMilestones :: "string \<Rightarrow> EngagementType \<Rightarrow> error + unit"

definition checkStreak :: "EEService option \<Rightarrow> string \<Rightarrow> error + nat \<times> bool" where
  "checkStreak eeService userId' =
     (case eeService of Some ee \<Rightarrow> ee_checkStreak ee userId' | None \<Rightarrow> Inr (0, False))"

definition checkReadingMilestones :: "EEService option \<Rightarrow> string \<Rightarrow> error + unit" where
  "checkReadingMilestones eeService userId' =
     (case eeService of Some ee \<Rightarrow> ee_checkReadingMilestones ee userId' | None \<Rightarrow> Inr ())"

definition checkEngagementMilestones ::
    "EEService option \<Rightarrow> string \<Rightarrow> EngagementType \<Rightarrow> error + unit" where
  "checkEngagementMilestones eeService userId' t =
     (case eeService of Some ee \<Rightarrow> ee_checkEngagementMilestones ee userId' t | None \<Rightarrow> Inr ())"

section \<open>Article service (\<open>articleService\<close>, in unnamed/part_004)\<close>

definition incField :: "real \<Rightarrow> real option \<Rightarrow> real option" where
  "incField d x = Some (or_zero x + d)"

definition toggleSave :: "World \<Rightarrow> string \<Rightarrow> bool \<Rightarrow> (error + unit) \<times> World" where
  "toggleSave w articleId' save =
     (let d = (if save then 1 else - 1);
          db1 = (db w)\<lparr>articles := updateFirst (\<lambda>a. a_id a = articleId')
                                      (\<lambda>a. a\<lparr>saves := incField d (saves a)\<rparr>) (articles (db w))\<rparr>;
          (res, r1) = cache_del (cache w) (cacheKeys_article articleId')
      in (res, \<lparr>db = db1, cache = r1\<rparr>))"

section \<open>Engagement service (services/engagement.ts)\<close>

definition isViewOf :: "string \<Rightarrow> string \<Rightarrow> Engagement \<Rightarrow> bool" where
  "isViewOf u a e = (userId e = u \<and> articleId e = a \<and> etype e = VIEW)"

text \<open>
  \<open>Engagement.findOneAndUpdate\<close> with \<open>upsert: true\<close> and the update
  \<open>{$setOnInsert: {createdAt}, $set: {updatedAt}}\<close>. Mongoose casts the update to the
  schema, which has no path \<open>updatedAt\<close>, so the \<open>$set\<close> is dropped: the update of the first
  VIEW row of the user and the article changes no field; when there is no such row, one
  is inserted with \<open>createdAt\<close>.
\<close>

definition upsertView :: "Engagement list \<Rightarrow> real \<Rightarrow> string \<Rightarrow> string \<Rightarrow> Engagement list" where
  "upsertView es now u a =
     (if list_ex (isViewOf u a) es
      then updateFirst (isViewOf u a) (\<lambda>e. e) es
      else es @ [\<lparr>userId = u, articleId = a, etype = VIEW, createdAt = now\<rparr>])"

definition viewArticle ::
    "World \<Rightarrow> real \<Rightarrow> EEService option \<Rightarrow> string \<Rightarrow> string \<Rightarrow> (error + bool) \<times> World" where
  "viewArticle w now eeService userId' articleId' =
     (let db1 = (db w)\<lparr>engagements := upsertView (engagements (db w)) now userId' articleId'\<rparr>;
          db2 = db1\<lparr>articles := updateFirst (\<lambda>a. a_id a = articleId')
                                   (\<lambda>a. a\<lparr>views := incField 1 (views a)\<rparr>) (articles db1)\<rparr>;
          w2 = w\<lparr>db := db2\<rparr>
      in case checkStreak eeService userId' of
           Inl e \<Rightarrow> (Inl e, w2)
         | Inr streakResult \<Rightarrow>
             (case checkReadingMilestones eeService userId' of
                Inl e \<Rightarrow> (Inl e, w2)
              | Inr _ \<Rightarrow> (Inr True, w2)))"

definition saveArticle ::
    "World \<Rightarrow> EEService option \<Rightarrow> string \<Rightarrow> string \<Rightarrow> (error + bool) \<times> World" where
  "saveArticle w eeService userId' articleId' =
     (case checkEngagementMilestones eeService userId' SAVE of
        Inl e \<Rightarrow> (Inl e, w)
      | Inr _ \<Rightarrow> (Inr True, w))"

definition shareArticle ::
    "World \<Rightarrow> real \<Rightarrow> EEService option \<Rightarrow> string \<Rightarrow> string \<Rightarrow> string
      \<Rightarrow> (error + bool) \<times> World" where
  "shareArticle w now eeService userId' articleId' platform =
     (let db1 = (db w)\<lparr>engagements := engagements (db w)
                    @ [\<lparr>userId = userId', articleId = articleId', etype = SHARE,
                        createdAt = now\<rparr>]\<rparr>;
          w1 = w\<lparr>db := db1\<rparr>
      in case checkEngagementMilestones eeService userId' SHARE of
           Inl e \<Rightarrow> (Inl e, w1)
         | Inr _ \<Rightarrow> (Inr True, w1))"

section \<open>Role update (\<open>roleService.updateUserRoles\<close>, in middleware/context.ts)\<close>

record UserRoleUpdate =
  upd_userId :: string
  previousRoles :: "DynamicRole list"
  newRoles :: "DynamicRole list"
  engagementsProcessed :: nat

text \<open>
  \<open>updateUserRoles\<close> at clock reading \<open>now\<close>. The write of \<open>lastActiveAt\<close> is left out,
  the user record of the model has no such field.
\<close>

definition updateUserRoles ::
    "World \<Rightarrow> real \<Rightarrow> string \<Rightarrow> (error + UserRoleUpdate option) \<times> World" where
  "updateUserRoles w now userId' =
     (case find (\<lambda>u. u_id u = userId') (users (db w)) of
        None \<Rightarrow> (Inr None, w)
      | Some user \<Rightarrow>
          let previousRoles' = or_empty (dynamicRoles user);
              computedRoles = computeUserRoles (db w) now userId' 30
          in if length computedRoles = 0 then (Inr None, w)
             else let newRoles' = smoothRoles previousRoles' computedRoles;
                      db1 = (db w)\<lparr>users := updateFirst (\<lambda>u. u_id u = userId')
                                 (\<lambda>u. u\<lparr>dynamicRoles := Some newRoles'\<rparr>) (users (db w))\<rparr>;
                      (res, r1) = cache_del (cache w) (''feed:user:'' @ userId')
                  in (case res of
                        Inl e \<Rightarrow> (Inl e, \<lparr>db = db1, cache = r1\<rparr>)
                      | Inr _ \<Rightarrow>
                          (Inr (Some \<lparr>upd_userId = userId', previousRoles = previousRoles',
                                      newRoles = newRoles',
                                      engagementsProcessed = length computedRoles\<rparr>),
                           \<lparr>db = db1, cache = r1\<rparr>)))"

text \<open>\<open>feedService.invalidateUserFeed\<close>, the invalidation by pattern.\<close>

definition invalidateUserFeed :: "World \<Rightarrow> string \<Rightarrow> (error + unit) \<times> World" where
  "invalidateUserFeed w userId' =
     (let (res, r1) = cache_delPattern (cache w) (''feed:user:'' @ userId' @ '':*'')
      in (case res of Inl e \<Rightarrow> Inl e | Inr _ \<Rightarrow> Inr (), w\<lparr>cache := r1\<rparr>))"

section \<open>Feed service (services/feed.ts)\<close>

record FeedOptions =
  opt_limit :: "nat option"
  opt_cursor :: "string option"

text \<open>A missing or empty string is falsy.\<close>

definition truthyStr :: "string option \<Rightarrow> bool" where
  "truthyStr x = (case x of None \<Rightarrow> False | Some s \<Rightarrow> s \<noteq> [])"

definition getSkillLevelRange :: "string \<Rightarrow> string list" where
  "getSkillLevelRange level =
     (if level = ''BEGINNER'' then [''BEGINNER'', ''INTERMEDIATE'']
      else if level = ''INTERMEDIATE'' then [''BEGINNER'', ''INTERMEDIATE'', ''ADVANCED'']
      else if level = ''ADVANCED'' then [''INTERMEDIATE'', ''ADVANCED'']
      else [''BEGINNER'', ''INTERMEDIATE'', ''ADVANCED''])"

text \<open>
  Queries on the article collection. Identifiers are ordered as strings, by character
  code. A sort by several descending keys is stable with respect to the order of the
  collection; a missing value comes last. \<open>limit(0)\<close> of a \<open>find\<close> is no limit.
\<close>

fun strLess :: "string \<Rightarrow> string \<Rightarrow> bool" where
  "strLess [] [] = False"
| "strLess [] (y # ys) = True"
| "strLess (x # xs) [] = False"
| "strLess (x # xs) (y # ys) =
     ((of_char x :: nat) < of_char y \<or> (x = y \<and> strLess xs ys))"

definition sortDesc :: "('a \<Rightarrow> 'k::linorder) \<Rightarrow> 'a list \<Rightarrow> 'a list" where
  "sortDesc f xs = rev (sort_key f (rev xs))"

definition mongoLimit :: "nat \<Rightarrow> 'a list \<Rightarrow> 'a list" where
  "mongoLimit n xs = (if n = 0 then xs else take n xs)"

definition userSkillLevel :: "LeanUser option \<Rightarrow> string option" where
  "userSkillLevel user =
     (case user of
        None \<Rightarrow> None
      | Some u \<Rightarrow> (case preferences u of
                    None \<Rightarrow> None
                  | Some p \<Rightarrow> if truthyStr (pref_skillLevel p) then pref_skillLevel p else None))"

definition feedQuery :: "LeanUser option \<Rightarrow> string option \<Rightarrow> Article \<Rightarrow> bool" where
  "feedQuery user cursor a =
     (qualityScore a \<ge> 7 \<and> isActive a \<and> \<not> isClickbait a
      \<and> (case cursor of
            None \<Rightarrow> True
          | Some c \<Rightarrow> if c \<noteq> [] then strLess (a_id a) c else True)
      \<and> (case userSkillLevel user of
            None \<Rightarrow> True
          | Some level \<Rightarrow> skillLevel a \<in> set (getSkillLevelRange level)))"

definition findFeedArticles :: "Db \<Rightarrow> LeanUser option \<Rightarrow> string option \<Rightarrow> nat \<Rightarrow> Article list" where
  "findFeedArticles d user cursor limit' =
     mongoLimit (limit' * 3)
       (sortDesc publishedAt (sortDesc qualityScore (filter (feedQuery user cursor) (articles d))))"

text \<open>
  The part of \<open>getPersonalizedFeed\<close> after the cache lookup, on the Redis state \<open>r\<close>
  that the lookup leaves.
\<close>

definition computeFeed ::
    "World \<Rightarrow> Redis \<Rightarrow> real \<Rightarrow> LeanUser option \<Rightarrow> string option \<Rightarrow> nat
      \<Rightarrow> (error + Cached) \<times> World" where
  "computeFeed w r now user cursor limit' =
     (let articles' = findFeedArticles (db w) user cursor limit'
      in case user of
           Some u \<Rightarrow>
             (let scored = map (\<lambda>article. (article, calculateRelevanceScore now u article))
                             articles';
                  result = take limit' (sort_key (\<lambda>a. - snd a) scored);
                  page = (if truthyStr cursor then 1 else 0);
                  (res, r1) = cache_set r (cacheKeys_userFeed (u_id u) page) (Scored result)
                                cacheTTL_feed
              in (case res of
                    Inl e \<Rightarrow> (Inl e, w\<lparr>cache := r1\<rparr>)
                  | Inr _ \<Rightarrow> (Inr (Scored result), w\<lparr>cache := r1\<rparr>)))
         | None \<Rightarrow> (Inr (Plain (take limit' articles')), w\<lparr>cache := r\<rparr>))"

definition getPersonalizedFeed ::
    "World \<Rightarrow> real \<Rightarrow> LeanUser option \<Rightarrow> FeedOptions \<Rightarrow> (error + Cached) \<times> World" where
  "getPersonalizedFeed w now user options =
     (let limit' = (case opt_limit options of None \<Rightarrow> 20 | Some n \<Rightarrow> n);
          cursor = opt_cursor options
      in case user of
           None \<Rightarrow> computeFeed w (cache w) now user cursor limit'
         | Some u \<Rightarrow>
             (let page = (if truthyStr cursor then 1 else 0);
                  cacheKey = cacheKeys_userFeed (u_id u) page;
                  (res, r1) = cache_get (cache w) cacheKey
              in (case res of
                    Inl e \<Rightarrow> (Inl e, w\<lparr>cache := r1\<rparr>)
                  | Inr (Some cached) \<Rightarrow> (Inr cached, w\<lparr>cache := r1\<rparr>)
                  | Inr None \<Rightarrow> computeFeed w r1 now user cursor limit')))"

definition publishedSince :: "real \<Rightarrow> Article \<Rightarrow> bool" where
  "publishedSince since a = (case publishedAt a of None \<Rightarrow> False | Some t \<Rightarrow> since \<le> t)"

text \<open>\<open>feedService.getTrending\<close>.\<close>

definition feedService_getTrending ::
    "World \<Rightarrow> real \<Rightarrow> nat \<Rightarrow> nat \<Rightarrow> (error + Cached) \<times> World" where
  "feedService_getTrending w now days limit' =
     (let cacheKey = cacheKeys_trending days;
          (res, r1) = cache_get (cache w) cacheKey
      in case res of
           Inl e \<Rightarrow> (Inl e, w\<lparr>cache := r1\<rparr>)
         | Inr (Some cached) \<Rightarrow> (Inr cached, w\<lparr>cache := r1\<rparr>)
         | Inr None \<Rightarrow>
             (let since = now - real days * 24 * 60 * 60 * 1000;
                  articles' = mongoLimit limit'
                    (sortDesc views (sortDesc saves
                       (filter (\<lambda>a. publishedSince since a \<and> qualityScore a \<ge> 7 \<and> isActive a)
                          (articles (db w)))));
                  (res2, r2) = cache_set r1 cacheKey (Plain articles') cacheTTL_trending
              in (case res2 of
                    Inl e \<Rightarrow> (Inl e, w\<lparr>cache := r2\<rparr>)
                  | Inr _ \<Rightarrow> (Inr (Plain articles'), w\<lparr>cache := r2\<rparr>))))"

section \<open>Trending queries (\<open>trendingService\<close>, in services/auth.ts)\<close>

text \<open>
  The score that the aggregation pipeline of \<open>computeTrending\<close> adds to an article, at
  clock reading \<open>now\<close>; it is null when a field of the formula is missing, and null sorts
  last.
\<close>

definition trendingScore :: "real \<Rightarrow> Article \<Rightarrow> real option" where
  "trendingScore now a =
     (case (publishedAt a, views a, saves a, shares a) of
        (Some t, Some v, Some s, Some sh) \<Rightarrow>
          (let hoursOld = (now - t) / (1000 * 60 * 60);
               rawScore = v * WEIGHTS_views + s * WEIGHTS_saves + sh * WEIGHTS_shares
           in Some (rawScore / (hoursOld + 2) powr GRAVITY))
      | _ \<Rightarrow> None)"

definition computeTrending :: "Db \<Rightarrow> real \<Rightarrow> nat \<Rightarrow> nat \<Rightarrow> Article list" where
  "computeTrending d now days limit' =
     (let since = now - real days * 24 * 60 * 60 * 1000
      in take limit'
           (sortDesc (trendingScore now)
              (filter (\<lambda>a. publishedSince since a \<and> isActive a \<and> qualityScore a \<ge> 5)
                 (articles d))))"

text \<open>\<open>cached.slice(0, limit)\<close>; a cached value that is not an array has no \<open>slice\<close>.\<close>

definition slice0 :: "nat \<Rightarrow> Cached \<Rightarrow> error + Cached" where
  "slice0 n c = (case c of
                   Scored xs \<Rightarrow> Inr (Scored (take n xs))
                 | Plain xs \<Rightarrow> Inr (Plain (take n xs))
                 | One a \<Rightarrow> Inl TypeError)"

text \<open>\<open>trendingService.getTrending\<close>.\<close>

definition trendingService_getTrending ::
    "World \<Rightarrow> real \<Rightarrow> nat \<Rightarrow> nat \<Rightarrow> (error + Cached) \<times> World" where
  "trendingService_getTrending w now days limit' =
     (let cacheKey = cacheKeys_trending days;
          (res, r1) = cache_get (cache w) cacheKey
      in case res of
           Inl e \<Rightarrow> (Inl e, w\<lparr>cache := r1\<rparr>)
         | Inr (Some cached) \<Rightarrow> (slice0 limit' cached, w\<lparr>cache := r1\<rparr>)
         | Inr None \<Rightarrow>
             (let articles' = computeTrending (db w) now days limit';
                  (res2, r2) = cache_set r1 cacheKey (Plain articles') cacheTTL_trending
              in (case res2 of
                    Inl e \<Rightarrow> (Inl e, w\<lparr>cache := r2\<rparr>)
                  | Inr _ \<Rightarrow> (Inr (Plain articles'), w\<lparr>cache := r2\<rparr>))))"

text \<open>Whether a call of a service returned a value or threw.\<close>

definition returned :: "(error + 'a) \<times> World \<Rightarrow> bool" where
  "returned r = (case fst r of Inr _ \<Rightarrow> True | Inl _ \<Rightarrow> False)"

section \<open>Example data\<close>

text \<open>
  The scenario of the specification: a user with profile FRONTEND 0.6, BACKEND 0.4 and an
  article for FRONTEND 0.5, DEVOPS 0.5, without tags, views or saves, published at time 0.
\<close>

definition exampleUser :: LeanUser where
  "exampleUser = \<lparr>u_id = ''u1'',
     dynamicRoles = Some [\<lparr>role = ''FRONTEND'', weight = 6 / 10\<rparr>,
                          \<lparr>role = ''BACKEND'', weight = 4 / 10\<rparr>],
     preferences = None\<rparr>"

definition exampleArticle :: Article where
  "exampleArticle = \<lparr>a_id = ''a1'', publishedAt = Some 0, qualityScore = 8,
     targetRoles = Some [\<lparr>role = ''FRONTEND'', weight = 5 / 10\<rparr>,
                         \<lparr>role = ''DEVOPS'', weight = 5 / 10\<rparr>],
     skillLevel = ''BEGINNER'', tags = Some [], views = Some 0, saves = Some 0,
     shares = Some 0, isActive = True, isClickbait = False\<rparr>"

text \<open>
  A store in which user \<open>u1\<close>, who has no role profile yet, has viewed the one article,
  which targets three roles with equal weight; and the same store before that view.
  \<open>negativeUser\<close> is a user whose one role has the weight -1.
\<close>

definition articleFor :: "TargetRole list \<Rightarrow> Article" where
  "articleFor trs = exampleArticle\<lparr>targetRoles := Some trs\<rparr>"

definition viewBy_u1 :: Engagement where
  "viewBy_u1 = \<lparr>userId = ''u1'', articleId = ''a1'', etype = VIEW, createdAt = 0\<rparr>"

definition newUser :: LeanUser where
  "newUser = exampleUser\<lparr>dynamicRoles := Some []\<rparr>"

definition thirdsArticle :: Article where
  "thirdsArticle = articleFor [\<lparr>role = ''FRONTEND'', weight = 1\<rparr>,
                               \<lparr>role = ''BACKEND'', weight = 1\<rparr>,
                               \<lparr>role = ''DEVOPS'', weight = 1\<rparr>]"


definition thirdsDb :: Db where
  "thirdsDb = \<lparr>users = [newUser], articles = [thirdsArticle], engagements = [viewBy_u1]\<rparr>"

definition unviewedDb :: Db where
  "unviewedDb = \<lparr>users = [newUser], articles = [thirdsArticle], engagements = []\<rparr>"

text \<open>
  Role profiles: the profile of the example user; a one-role profile that does not sum to
  1; and two pairs of a previous and a computed profile, each with weights of at least
  0.05 that sum to 1, listed by descending weight.
\<close>

definition exampleProfile :: "DynamicRole list" where
  "exampleProfile = [\<lparr>role = ''FRONTEND'', weight = 6 / 10\<rparr>,
                     \<lparr>role = ''BACKEND'', weight = 4 / 10\<rparr>]"

definition prunedProfile :: "DynamicRole list" where
  "prunedProfile = [\<lparr>role = ''FRONTEND'', weight = 97 / 100\<rparr>]"





text \<open>
  Worlds over \<open>thirdsDb\<close>: \<open>freshWorld\<close> has an empty cache (and \<open>unviewedWorld\<close> is
  the same over \<open>unviewedDb\<close>), \<open>staleWorld\<close> is
  \<open>freshWorld\<close> after user \<open>u1\<close> has fetched the first feed page at time 0, so that its
  cache holds \<open>stalePage\<close>; in \<open>downWorld\<close> no command reaches Redis, in \<open>flakyWorld\<close> the
  second command does not. \<open>trendWorld\<close> has one active article of quality 6 and an
  empty cache.
\<close>

definition emptyRedis :: Redis where
  "emptyRedis = \<lparr>store = [], ops = 0, up = (\<lambda>n. True)\<rparr>"

definition noOptions :: FeedOptions where
  "noOptions = \<lparr>opt_limit = None, opt_cursor = None\<rparr>"

definition freshWorld :: World where
  "freshWorld = \<lparr>db = thirdsDb, cache = emptyRedis\<rparr>"

definition unviewedWorld :: World where
  "unviewedWorld = \<lparr>db = unviewedDb, cache = emptyRedis\<rparr>"

definition staleWorld :: World where
  "staleWorld = snd (getPersonalizedFeed freshWorld 0 (Some newUser) noOptions)"

definition stalePage :: Cached where
  "stalePage = Scored [(thirdsArticle, 20)]"

definition downWorld :: World where
  "downWorld = \<lparr>db = thirdsDb, cache = emptyRedis\<lparr>up := (\<lambda>n. False)\<rparr>\<rparr>"

definition flakyWorld :: World where
  "flakyWorld = \<lparr>db = thirdsDb, cache = emptyRedis\<lparr>up := (\<lambda>n. n \<noteq> 1)\<rparr>\<rparr>"

definition trendWorld :: World where
  "trendWorld = \<lparr>db = \<lparr>users = [], articles = [exampleArticle\<lparr>qualityScore := 6\<rparr>],
                         engagements = []\<rparr>,
     cache = emptyRedis\<rparr>"

section \<open>Trending score and article age\<close>






section \<open>Relevance score: range and dependence on the clock\<close>







lemmas scorer_defs =
  calculateRelevanceScore_def relevanceTotal_def Math_round_def calculateRoleAlignment_def
  calculateTagMatch_def calculateFreshness_def calculateEngagement_def or_empty_def
  or_zero_def Let_def




lemma exampleScore_fresh: "calculateRelevanceScore 0 exampleUser exampleArticle = 32"
  by (simp add: exampleUser_def exampleArticle_def scorer_defs)

lemma exampleScore_8days:
  "calculateRelevanceScore (8 * 24 * 60 * 60 * 1000) exampleUser exampleArticle = 28"
  by (simp add: exampleUser_def exampleArticle_def scorer_defs)

text \<open>
  C7, as stated: two evaluations with the same user and the same article give the same
  score. The user and the article of the example score 32 when the clock reads the
  publication time and 28 when it reads eight days later.
\<close>

theorem C7_counterexample:
  "calculateRelevanceScore 0 exampleUser exampleArticle
   \<noteq> calculateRelevanceScore (8 * 24 * 60 * 60 * 1000) exampleUser exampleArticle"
  unfolding exampleScore_fresh exampleScore_8days by simp

text \<open>
  C7, amended: the score is a function of the user, the article and the clock reading,
  and it depends on the clock only through the freshness step of the article's age: two
  evaluations with the same user and article whose clock readings give the article the
  same freshness produce the same score.
\<close>

theorem C7_score_depends_on_freshness_only:
  assumes "calculateFreshness now1 (publishedAt article) = calculateFreshness now2 (publishedAt article)"
  shows "calculateRelevanceScore now1 user article = calculateRelevanceScore now2 user article"
  using assms by (simp add: calculateRelevanceScore_def relevanceTotal_def Let_def)

theorem C7_score_depends_on_freshness_only_witness:
  "calculateRelevanceScore 0 exampleUser exampleArticle
   = calculateRelevanceScore (24 * 60 * 60 * 1000) exampleUser exampleArticle"
  using C7_score_depends_on_freshness_only [of 0 exampleArticle "24 * 60 * 60 * 1000" exampleUser]
  by (simp add: exampleArticle_def calculateFreshness_def Let_def)

section \<open>Role profiles: weights and smoothing\<close>

lemma foldl_add_conv_sum_list:
  fixes a :: real
  shows "foldl (\<lambda>sum r. sum + f r) a xs = a + sum_list (map f xs)"
  by (induction xs arbitrary: a) (simp_all add: algebra_simps)



lemma Math_round_of_int: "Math_round (real_of_int k) = k"
  unfolding Math_round_def by (simp add: floor_eq_iff)




lemma round2_hundredth:
  assumes "real_of_int \<lfloor>w * 100\<rfloor> = w * 100"
  shows "round2 w = w"
proof -
  have "Math_round (w * 100) = \<lfloor>w * 100\<rfloor>"
    using Math_round_of_int [of "\<lfloor>w * 100\<rfloor>"] assms by simp
  then show ?thesis using assms by (simp add: round2_def)
qed







lemma roleRows_empty: "roleRows d since uid = []"
  by (simp add: roleRows_def)

lemma computeUserRoles_empty: "computeUserRoles d now uid days = []"
  by (simp add: computeUserRoles_def aggregateRoles_def roleRows_empty rolesOfGroups_def)









lemma prevWeightOf_distinct:
  assumes "distinct (map role p)" and "r \<in> set p"
  shows "prevWeightOf p (role r) = weight r"
proof -
  let ?xs = "rev (map (\<lambda>r. (role r, weight r)) p)"
  have "distinct (map fst ?xs)" using assms(1) by (simp add: rev_map [symmetric] comp_def)
  moreover have "(role r, weight r) \<in> set ?xs" using assms(2) by auto
  ultimately have "map_of ?xs (role r) = Some (weight r)" by simp
  then show ?thesis by (simp add: prevWeightOf_def)
qed

lemma smoothOne_self:
  assumes "distinct (map role p)" and "r \<in> set p"
    and "real_of_int \<lfloor>weight r * 100\<rfloor> = weight r * 100"
  shows "smoothOne p r = r"
proof -
  have "SMOOTHING_FACTOR * weight r + (1 - SMOOTHING_FACTOR) * weight r = weight r"
    by (simp add: algebra_simps)
  then show ?thesis
    using prevWeightOf_distinct [OF assms(1,2)] round2_hundredth [OF assms(3)]
    by (simp add: smoothOne_def Let_def)
qed

lemma keepDecayed_found: "\<exists>s \<in> set sm. role s = role prev \<Longrightarrow> keepDecayed sm prev = sm"
  by (auto simp: keepDecayed_def find_None_iff)

lemma foldl_keepDecayed_found:
  "\<forall>prev \<in> set ps. \<exists>s \<in> set sm. role s = role prev \<Longrightarrow> foldl keepDecayed sm ps = sm"
  by (induction ps) (simp_all add: keepDecayed_found)

lemma smoothRoles_fixed_point:
  assumes "distinct (map role p)"
    and "\<forall>r \<in> set p. real_of_int \<lfloor>weight r * 100\<rfloor> = weight r * 100"
    and "p \<noteq> [] \<longrightarrow> sum_list (map weight p) = 1"
    and "sorted_wrt (\<lambda>a b. weight a \<ge> weight b) p"
  shows "smoothRoles p p = p"
proof (cases "p = []")
  case True
  then show ?thesis by (simp add: smoothRoles_def)
next
  case False
  have sm: "map (smoothOne p) p = p"
    using assms(1,2) by (intro map_idI) (simp add: smoothOne_self)
  have sm': "foldl keepDecayed p p = p" by (rule foldl_keepDecayed_found) auto
  have tot: "foldl (\<lambda>sum r. sum + weight r) 0 p = 1"
    using assms(3) False by (simp add: foldl_add_conv_sum_list)
  have norm: "map (normalizeBy 1) p = p"
    using assms(2) by (intro map_idI) (simp add: normalizeBy_def round2_hundredth)
  have "sorted (map (\<lambda>r. - weight r) p)"
    using assms(4) by (simp add: sorted_map)
  then have "sortByWeightDesc p = p"
    unfolding sortByWeightDesc_def by (rule sort_key_id_if_sorted)
  then show ?thesis using False by (simp add: smoothRoles_def Let_def sm sm' tot norm)
qed


lemmas role_defs =
  computeUserRoles_def aggregateRoles_def roleRows_def rolesOfGroups_def or_empty_def
  engagementWeight_def VALID_ROLES_def round2_def Math_round_def sortByWeightDesc_def
  smoothRoles_def smoothOne_def normalizeBy_def prevWeightOf_def keepDecayed_def
  SMOOTHING_FACTOR_def Let_def

lemma pruned_roles_smoothed:
  "smoothRoles prunedProfile prunedProfile = [\<lparr>role = ''FRONTEND'', weight = 1\<rparr>]"
  by (simp add: prunedProfile_def role_defs)






text \<open>
  C5, as stated: \<open>smoothRoles p p = p\<close> for every profile. The profile FRONTEND 0.97
  is renormalised to FRONTEND 1.
\<close>

theorem C5_counterexample: "smoothRoles prunedProfile prunedProfile \<noteq> prunedProfile"
  unfolding pruned_roles_smoothed by (simp add: prunedProfile_def)

text \<open>
  C5, amended: \<open>smoothRoles p p = p\<close> for every profile \<open>p\<close> with pairwise different
  roles whose weights are whole hundredths, listed by descending weight, and sum to
  exactly 1 unless the profile is empty.
\<close>

theorem C5_smoothRoles_fixed_point:
  assumes "distinct (map role p)"
    and "\<forall>r \<in> set p. real_of_int \<lfloor>weight r * 100\<rfloor> = weight r * 100"
    and "p \<noteq> [] \<longrightarrow> sum_list (map weight p) = 1"
    and "sorted_wrt (\<lambda>a b. weight a \<ge> weight b) p"
  shows "smoothRoles p p = p"
  using assms by (rule smoothRoles_fixed_point)

theorem C5_smoothRoles_fixed_point_witness:
  "smoothRoles exampleProfile exampleProfile = exampleProfile"
proof -
  have "distinct (map role exampleProfile)" by (simp add: exampleProfile_def)
  moreover have "\<forall>r \<in> set exampleProfile. real_of_int \<lfloor>weight r * 100\<rfloor> = weight r * 100"
    by (simp add: exampleProfile_def)
  moreover have "exampleProfile \<noteq> [] \<longrightarrow> sum_list (map weight exampleProfile) = 1"
    by (simp add: exampleProfile_def)
  moreover have "sorted_wrt (\<lambda>a b. weight a \<ge> weight b) exampleProfile"
    by (simp add: exampleProfile_def)
  ultimately show ?thesis by (rule C5_smoothRoles_fixed_point)
qed

section \<open>Cache invalidation\<close>

lemmas cache_defs =
  cache_get_def cache_set_def cache_del_def cache_delPattern_def issued_def
  cacheKeys_userFeed_def cacheKeys_article_def cacheKeys_trending_def
  cacheTTL_feed_def cacheTTL_trending_def showNat.simps

lemma map_of_filter_key:
  "map_of (filter (\<lambda>(k, _). k \<noteq> key) xs) k' = (if k' = key then None else map_of xs k')"
  by (induction xs) auto

lemma cache_del_store:
  "map_of (store (snd (cache_del r key))) k
   = (if up r (ops r) \<and> k = key then None else map_of (store r) k)"
  by (simp add: cache_del_def issued_def map_of_filter_key)

lemma cache_del_fst: "fst (cache_del r key) = Inr () \<longleftrightarrow> up r (ops r)"
  by (simp add: cache_del_def)

lemma toggleSave_fst: "fst (toggleSave w a save) = fst (cache_del (cache w) (cacheKeys_article a))"
  by (simp add: toggleSave_def Let_def split: prod.split)

lemma toggleSave_cache:
  "cache (snd (toggleSave w a save)) = snd (cache_del (cache w) (cacheKeys_article a))"
  by (simp add: toggleSave_def Let_def split: prod.split)

lemma staleWorld_eq:
  "staleWorld = \<lparr>db = thirdsDb,
     cache = \<lparr>store = [(''feed:user:u1:page:0'', stalePage, 300)], ops = 2,
               up = (\<lambda>n. True)\<rparr>\<rparr>"
  by (simp add: staleWorld_def stalePage_def getPersonalizedFeed_def computeFeed_def
      findFeedArticles_def feedQuery_def userSkillLevel_def mongoLimit_def sortDesc_def
      truthyStr_def cache_defs scorer_defs freshWorld_def emptyRedis_def
      noOptions_def thirdsDb_def thirdsArticle_def articleFor_def exampleArticle_def
      newUser_def exampleUser_def)

lemma toggleSave_stale:
  "fst (toggleSave staleWorld ''a1'' True) = Inr ()"
  by (simp add: toggleSave_def Let_def cache_defs staleWorld_eq)

text \<open>
  C1, as stated: after a save the key \<open>feed:user:u:page:0\<close> is absent, and the next
  first-page feed is not the page cached before the save. In \<open>staleWorld\<close> the save of
  article \<open>a1\<close> completes and the article has one save, the page of user \<open>u1\<close> computed
  before is still cached, and the next feed of \<open>u1\<close> is that page.
\<close>

theorem C1_counterexample:
  "fst (toggleSave staleWorld ''a1'' True) = Inr ()
   \<and> map saves (articles (db (snd (toggleSave staleWorld ''a1'' True)))) = [Some 1]
   \<and> map_of (store (cache (snd (toggleSave staleWorld ''a1'' True)))) (cacheKeys_userFeed ''u1'' 0)
       = Some (stalePage, 300)
   \<and> fst (getPersonalizedFeed (snd (toggleSave staleWorld ''a1'' True)) 1000 (Some newUser)
            noOptions) = Inr stalePage"
  by (simp add: getPersonalizedFeed_def truthyStr_def toggleSave_def incField_def or_zero_def
      Let_def cache_defs staleWorld_eq noOptions_def newUser_def exampleUser_def thirdsDb_def
      thirdsArticle_def articleFor_def exampleArticle_def)

text \<open>
  C1, amended: after \<open>toggleSave\<close> for article \<open>a\<close> completes, the key \<open>article:a:data\<close>
  is absent and the key \<open>feed:user:u:page:0\<close> of every user \<open>u\<close> holds what it held
  before; \<open>saveArticle\<close> and \<open>shareArticle\<close> of the engagement service leave the whole
  cache as it was.
\<close>

theorem C1_save_keeps_feed_cache:
  "(fst (toggleSave w a save) = Inr () \<longrightarrow>
      map_of (store (cache (snd (toggleSave w a save)))) (cacheKeys_article a) = None
      \<and> map_of (store (cache (snd (toggleSave w a save)))) (cacheKeys_userFeed u 0)
          = map_of (store (cache w)) (cacheKeys_userFeed u 0))
   \<and> cache (snd (saveArticle w ee u a)) = cache w
   \<and> cache (snd (shareArticle w now ee u a platform)) = cache w"
proof -
  have neq: "cacheKeys_userFeed u 0 \<noteq> cacheKeys_article a"
    by (simp add: cacheKeys_userFeed_def cacheKeys_article_def)
  have "cache (snd (saveArticle w ee u a)) = cache w"
    by (simp add: saveArticle_def split: sum.split)
  moreover have "cache (snd (shareArticle w now ee u a platform)) = cache w"
    by (simp add: shareArticle_def Let_def split: sum.split)
  ultimately show ?thesis
    using neq by (simp add: toggleSave_fst toggleSave_cache cache_del_store cache_del_fst)
qed

theorem C1_save_keeps_feed_cache_witness:
  "map_of (store (cache (snd (toggleSave staleWorld ''a1'' True)))) (cacheKeys_article ''a1'') = None
   \<and> map_of (store (cache (snd (toggleSave staleWorld ''a1'' True)))) (cacheKeys_userFeed ''u1'' 0)
       = map_of (store (cache staleWorld)) (cacheKeys_userFeed ''u1'' 0)"
  using C1_save_keeps_feed_cache [of staleWorld "''a1''" True "''u1''"] toggleSave_stale
  by simp

text \<open>
  The role update. \<open>computeUserRoles\<close> returns no role, so \<open>updateUserRoles\<close> returns null
  and leaves the users and the cache as they are; the branch that persists a profile is
  not reached. The key that this branch deletes, \<open>feed:user:u\<close>, is not the key of a feed
  page; \<open>invalidateUserFeed\<close> deletes the pages by pattern.
\<close>

lemma updateUserRoles_null: "updateUserRoles w now u = (Inr None, w)"
  by (simp add: updateUserRoles_def computeUserRoles_empty Let_def split: option.split)

lemma cache_del_user_key_keeps_pages:
  "map_of (store (snd (cache_del r (''feed:user:'' @ u)))) (cacheKeys_userFeed u n)
   = map_of (store r) (cacheKeys_userFeed u n)"
proof -
  have neq: "cacheKeys_userFeed u n \<noteq> ''feed:user:'' @ u"
    by (simp add: cacheKeys_userFeed_def)
  show ?thesis using neq by (simp add: cache_del_store)
qed

lemma invalidateUserFeed_stale:
  "fst (invalidateUserFeed staleWorld ''u1'') = Inr ()
   \<and> map_of (store (cache (snd (invalidateUserFeed staleWorld ''u1''))))
        (cacheKeys_userFeed ''u1'' 0) = None"
  by (simp add: invalidateUserFeed_def Let_def cache_defs staleWorld_eq)

section \<open>Cache failures during feed assembly\<close>

lemma computeFeed_anonymous: "returned (computeFeed w r now None cursor n)"
  by (simp add: computeFeed_def returned_def Let_def)

lemma computeFeed_user:
  "returned (computeFeed w r now (Some u) cursor n) = up r (ops r)"
  by (simp add: computeFeed_def returned_def cache_set_def Let_def)

lemma computeFeed_user_error:
  "\<not> up r (ops r) \<Longrightarrow> fst (computeFeed w r now (Some u) cursor n) = Inl RedisError"
  by (simp add: computeFeed_def cache_set_def Let_def)

text \<open>
  C3, as stated: a failing cache operation during \<open>getPersonalizedFeed\<close> is treated as
  a miss and the call returns a feed. In \<open>downWorld\<close> the lookup fails and the call
  throws the Redis error.
\<close>

theorem C3_counterexample:
  "fst (getPersonalizedFeed downWorld 0 (Some newUser) noOptions) = Inl RedisError"
  by (simp add: getPersonalizedFeed_def truthyStr_def Let_def cache_defs downWorld_def
      emptyRedis_def noOptions_def)

text \<open>
  C3, amended: \<open>getPersonalizedFeed\<close> returns a feed whenever the cache commands it
  issues reach Redis, and always for an anonymous caller, for whom it issues none. For a
  user, a failing lookup makes the call throw the Redis error, and so does a failing
  write of the page after a lookup that found nothing.
\<close>

theorem C3_cache_failure_propagates:
  "returned (getPersonalizedFeed w now None options)
   \<and> (\<not> up (cache w) (ops (cache w)) \<longrightarrow>
        fst (getPersonalizedFeed w now (Some u) options) = Inl RedisError)
   \<and> (up (cache w) (ops (cache w)) \<and> up (cache w) (Suc (ops (cache w))) \<longrightarrow>
        returned (getPersonalizedFeed w now (Some u) options))
   \<and> (up (cache w) (ops (cache w)) \<and> \<not> up (cache w) (Suc (ops (cache w)))
        \<and> map_of (store (cache w))
             (cacheKeys_userFeed (u_id u) (if truthyStr (opt_cursor options) then 1 else 0)) = None
      \<longrightarrow> fst (getPersonalizedFeed w now (Some u) options) = Inl RedisError)"
proof (intro conjI impI)
  show "returned (getPersonalizedFeed w now None options)"
    by (simp add: getPersonalizedFeed_def Let_def computeFeed_anonymous)
next
  assume "\<not> up (cache w) (ops (cache w))"
  then show "fst (getPersonalizedFeed w now (Some u) options) = Inl RedisError"
    by (simp add: getPersonalizedFeed_def Let_def cache_get_def)
next
  assume "up (cache w) (ops (cache w)) \<and> up (cache w) (Suc (ops (cache w)))"
  then show "returned (getPersonalizedFeed w now (Some u) options)"
    by (simp add: getPersonalizedFeed_def Let_def cache_get_def issued_def computeFeed_user
        split: option.split) (simp add: returned_def)
next
  assume "up (cache w) (ops (cache w)) \<and> \<not> up (cache w) (Suc (ops (cache w)))
        \<and> map_of (store (cache w))
             (cacheKeys_userFeed (u_id u) (if truthyStr (opt_cursor options) then 1 else 0)) = None"
  then show "fst (getPersonalizedFeed w now (Some u) options) = Inl RedisError"
    by (simp add: getPersonalizedFeed_def Let_def cache_get_def issued_def
        computeFeed_user_error)
qed

theorem C3_cache_failure_propagates_witness:
  "fst (getPersonalizedFeed flakyWorld 0 (Some newUser) noOptions) = Inl RedisError
   \<and> returned (getPersonalizedFeed freshWorld 0 (Some newUser) noOptions)
   \<and> fst (getPersonalizedFeed (freshWorld\<lparr>cache := emptyRedis\<lparr>up := (\<lambda>n. 0 < n)\<rparr>\<rparr>) 0
            (Some newUser) noOptions) = Inl RedisError"
  using C3_cache_failure_propagates [of flakyWorld 0 noOptions newUser]
    C3_cache_failure_propagates [of freshWorld 0 noOptions newUser]
    C3_cache_failure_propagates
      [of "freshWorld\<lparr>cache := emptyRedis\<lparr>up := (\<lambda>n. 0 < n)\<rparr>\<rparr>" 0 noOptions newUser]
  by (simp add: flakyWorld_def freshWorld_def emptyRedis_def noOptions_def truthyStr_def)

section \<open>View recording\<close>

lemma filter_updateFirst_length:
  assumes "\<And>x. P x \<Longrightarrow> P (f x)"
  shows "length (filter P (updateFirst P f xs)) = length (filter P xs)"
  by (induction xs) (simp_all add: assms)

lemma find_updateFirst:
  assumes "\<And>x. P x \<Longrightarrow> P (f x)"
  shows "find P (updateFirst P f xs) = map_option f (find P xs)"
  by (induction xs) (simp_all add: assms)

lemma updateFirst_same: "updateFirst P (\<lambda>x. x) xs = xs"
  by (induction xs) simp_all

lemma list_ex_filter_length: "list_ex P xs \<longleftrightarrow> 0 < length (filter P xs)"
  by (induction xs) simp_all

lemma upsertView_count:
  "length (filter (isViewOf u a) (upsertView es now u a))
   = max 1 (length (filter (isViewOf u a) es))"
proof (cases "list_ex (isViewOf u a) es")
  case True
  then have "0 < length (filter (isViewOf u a) es)" by (simp add: list_ex_filter_length)
  then have "max 1 (length (filter (isViewOf u a) es)) = length (filter (isViewOf u a) es)"
    by (simp add: max_def Suc_le_eq)
  then show ?thesis
    using True by (simp add: upsertView_def updateFirst_same)
next
  case False
  then have "length (filter (isViewOf u a) es) = 0" by (simp add: list_ex_filter_length)
  then show ?thesis using False by (simp add: upsertView_def isViewOf_def)
qed

lemma upsertView_second:
  assumes "0 < length (filter (isViewOf u a) es)"
  shows "upsertView es now u a = es"
  using assms by (simp add: upsertView_def list_ex_filter_length updateFirst_same)

lemma viewArticle_state:
  "snd (viewArticle w now ee u a) =
     w\<lparr>db := (db w)\<lparr>engagements := upsertView (engagements (db w)) now u a,
                      articles := updateFirst (\<lambda>x. a_id x = a)
                                    (\<lambda>x. x\<lparr>views := incField 1 (views x)\<rparr>) (articles (db w))\<rparr>\<rparr>"
  by (simp add: viewArticle_def Let_def split: sum.splits)

lemma viewArticle_views:
  assumes "find (\<lambda>x. a_id x = a) (articles (db w)) = Some art"
  shows "find (\<lambda>x. a_id x = a) (articles (db (snd (viewArticle w now ee u a))))
         = Some (art\<lparr>views := Some (or_zero (views art) + 1)\<rparr>)"
  using assms by (simp add: viewArticle_state find_updateFirst incField_def)

text \<open>
  Two calls of \<open>viewArticle\<close> for the same user and article, on a store that holds at most
  one VIEW row of the pair and holds the article: exactly one VIEW row of the pair is
  left, the second call leaves the engagement collection as the first call left it, and
  the article's \<open>views\<close> counter has grown by 2, whether or not the gamification hooks
  throw.
\<close>

lemma viewArticle_twice:
  assumes "length (filter (isViewOf u a) (engagements (db w))) \<le> 1"
    and "find (\<lambda>x. a_id x = a) (articles (db w)) = Some art"
  shows "length (filter (isViewOf u a)
            (engagements (db (snd (viewArticle (snd (viewArticle w now1 ee u a)) now2 ee u a))))) = 1
       \<and> engagements (db (snd (viewArticle (snd (viewArticle w now1 ee u a)) now2 ee u a)))
           = engagements (db (snd (viewArticle w now1 ee u a)))
       \<and> map_option (\<lambda>x. or_zero (views x))
            (find (\<lambda>x. a_id x = a)
               (articles (db (snd (viewArticle (snd (viewArticle w now1 ee u a)) now2 ee u a)))))
           = Some (or_zero (views art) + 2)"
proof -
  define w1 where "w1 = snd (viewArticle w now1 ee u a)"
  define w2 where "w2 = snd (viewArticle w1 now2 ee u a)"
  have e1: "engagements (db w1) = upsertView (engagements (db w)) now1 u a"
    by (simp add: w1_def viewArticle_state)
  have c1: "length (filter (isViewOf u a) (engagements (db w1))) = 1"
    using assms(1) by (simp add: e1 upsertView_count)
  have e2: "engagements (db w2) = upsertView (engagements (db w1)) now2 u a"
    by (simp add: w2_def viewArticle_state)
  have upd: "engagements (db w2) = engagements (db w1)"
    unfolding e2 using c1 by (intro upsertView_second) simp
  have c2: "length (filter (isViewOf u a) (engagements (db w2))) = 1"
    using c1 by (simp add: upd)
  have v1: "find (\<lambda>x. a_id x = a) (articles (db w1))
            = Some (art\<lparr>views := Some (or_zero (views art) + 1)\<rparr>)"
    unfolding w1_def using assms(2) by (rule viewArticle_views)
  have v2: "find (\<lambda>x. a_id x = a) (articles (db w2))
            = Some (art\<lparr>views := Some (or_zero (views art) + 1 + 1)\<rparr>)"
    using viewArticle_views [OF v1, of now2 ee u] by (simp add: w2_def or_zero_def)
  show ?thesis
    using c2 upd v2 by (simp add: w1_def w2_def or_zero_def)
qed

text \<open>
  C9: two calls of \<open>viewArticle\<close> for the same user and article leave exactly one VIEW row
  of the pair, the second call only updating its timestamp, and the \<open>views\<close> counter of the
  article grows by 2. In \<open>unviewedWorld\<close>, where user \<open>u1\<close> views article \<open>a1\<close> at time 5 and
  again at time 6, there is one row and \<open>views\<close> is 2, but the row after the second call is
  the row that the first call inserted: its one timestamp is the \<open>createdAt\<close> of the first
  call, and the time of the second call is stored nowhere.
\<close>

theorem C9_second_view_keeps_row:
  "engagements (db (snd (viewArticle unviewedWorld 5 None ''u1'' ''a1'')))
     = [\<lparr>userId = ''u1'', articleId = ''a1'', etype = VIEW, createdAt = 5\<rparr>]
   \<and> engagements (db (snd (viewArticle (snd (viewArticle unviewedWorld 5 None ''u1'' ''a1'')) 6
         None ''u1'' ''a1'')))
     = [\<lparr>userId = ''u1'', articleId = ''a1'', etype = VIEW, createdAt = 5\<rparr>]
   \<and> map views (articles (db (snd (viewArticle
         (snd (viewArticle unviewedWorld 5 None ''u1'' ''a1'')) 6 None ''u1'' ''a1''))))
     = [Some 2]"
  by (simp add: viewArticle_state upsertView_def isViewOf_def incField_def or_zero_def
      unviewedWorld_def unviewedDb_def thirdsArticle_def articleFor_def exampleArticle_def)

section \<open>The two trending queries\<close>

text \<open>
  C10: for the same window, limit and articles, \<open>feedService.getTrending\<close> and
  \<open>trendingService.getTrending\<close> return the same ranked list. In \<open>trendWorld\<close>, whose one
  article has quality 6, the first returns no article and the second returns the
  article; and since both use the key \<open>trending:articles:7days\<close>, the second returns the
  empty list of the first when it is called after it.
\<close>

theorem C10_trending_queries_disagree:
  "fst (feedService_getTrending trendWorld 0 7 10) = Inr (Plain [])
   \<and> fst (trendingService_getTrending trendWorld 0 7 10)
       = Inr (Plain [exampleArticle\<lparr>qualityScore := 6\<rparr>])
   \<and> fst (trendingService_getTrending (snd (feedService_getTrending trendWorld 0 7 10)) 0 7 10)
       = Inr (Plain [])"
  by (simp add: trendingService_getTrending_def feedService_getTrending_def
      computeTrending_def slice0_def Let_def cache_defs trendWorld_def emptyRedis_def
      exampleArticle_def publishedSince_def mongoLimit_def sortDesc_def)

end
